theory Spec2Isabelle
  imports Complex_Main "HOL-Library.Word"
begin

section \<open>Values crossing the request/response envelope\<close>

text \<open>
  The envelope of \<^verbatim>\<open>src/app.ts\<close> (lines 1-29) carries JavaScript objects on the web
  backend and JSON documents on the Python backend. Both are modelled by one type of JSON
  values. A number is a double: a finite value, given by the rational it stands for, or
  NaN (what \<^verbatim>\<open>numpy.mean\<close> yields on an empty array).
\<close>

datatype number = Fin rat | NaN

datatype json =
    JNull
  | JBool bool
  | JNum number
  | JStr string
  | JArr "json list"
  | JObj "(string \<times> json) list"

text \<open>Property access \<^verbatim>\<open>j.k\<close> on an object literal.\<close>

fun field :: "string \<Rightarrow> json \<Rightarrow> json option" where
  "field k (JObj kvs) = map_of kvs k"
| "field k _ = None"

text \<open>\<^verbatim>\<open>type McvRequest = { op: McvOperation; args: TArgs }\<close>. The operation is compared
  at run time with \<^verbatim>\<open>!==\<close> and \<^verbatim>\<open>==\<close>, so the model keeps it a string.\<close>

record McvRequest =
  op :: string
  args :: json

text \<open>\<^verbatim>\<open>type McvSuccess<TData> = { ok: true; data: TData }\<close>\<close>

definition McvSuccess :: "json \<Rightarrow> json" where
  "McvSuccess d = JObj [(''ok'', JBool True), (''data'', d)]"

text \<open>\<^verbatim>\<open>type McvFailure = { ok: false; error: { code; message; details? } }\<close>\<close>

definition McvFailure :: "string \<Rightarrow> string \<Rightarrow> string option \<Rightarrow> json" where
  "McvFailure c m d =
     JObj [(''ok'', JBool False),
           (''error'', JObj ([(''code'', JStr c), (''message'', JStr m)] @
                             (case d of None \<Rightarrow> [] | Some x \<Rightarrow> [(''details'', JStr x)])))]"

text \<open>The shape \<^verbatim>\<open>McvResponse<TData> = McvSuccess<TData> | McvFailure\<close> as a run-time check of a
  JSON value: what a caller that reads \<^verbatim>\<open>ok\<close>, \<^verbatim>\<open>data\<close> and \<^verbatim>\<open>error\<close> relies on.\<close>

fun is_string :: "json option \<Rightarrow> bool" where
  "is_string (Some (JStr s)) = True"
| "is_string _ = False"

fun is_McvError :: "json option \<Rightarrow> bool" where
  "is_McvError (Some (JObj e)) = (is_string (map_of e ''code'') \<and> is_string (map_of e ''message''))"
| "is_McvError _ = False"

fun is_McvResponse :: "json \<Rightarrow> bool" where
  "is_McvResponse (JObj kvs) =
     (case map_of kvs ''ok'' of
        Some (JBool True) \<Rightarrow> map_of kvs ''data'' \<noteq> None
      | Some (JBool False) \<Rightarrow> is_McvError (map_of kvs ''error'')
      | _ \<Rightarrow> False)"
| "is_McvResponse _ = False"

text \<open>The error code of a failure response, and whether a response is a success.\<close>

definition error_code :: "json \<Rightarrow> string option" where
  "error_code j =
     (case field ''ok'' j of
        Some (JBool False) \<Rightarrow>
          (case field ''error'' j of
             Some e \<Rightarrow> (case field ''code'' e of Some (JStr c) \<Rightarrow> Some c | _ \<Rightarrow> None)
           | None \<Rightarrow> None)
      | _ \<Rightarrow> None)"

definition is_success :: "json \<Rightarrow> bool" where
  "is_success j = (field ''ok'' j = Some (JBool True))"

section \<open>Double-precision arithmetic\<close>

text \<open>
  JavaScript numbers and Python floats are IEEE 754 doubles, and \<^verbatim>\<open>+\<close> and \<^verbatim>\<open>/\<close> on them
  return the exact result rounded to the nearest double, ties to the even significand.
  \<open>double q\<close> is that rounding for a rational \<open>q\<close> in the range of normal doubles, where
  the sums and means of bytes below lie: with \<open>2 ^ e \<le> |q| < 2 ^ (e + 1)\<close>, the significand
  \<open>|q| / 2 ^ (e - 52)\<close> is rounded to an integer of 53 bits.
\<close>

text \<open>The number of binary digits of a natural number.\<close>

fun bits :: "nat \<Rightarrow> nat" where
  "bits n = (if n = 0 then 0 else Suc (bits (n div 2)))"

declare bits.simps [simp del]

text \<open>The exponent \<open>e\<close> of a positive rational: \<open>2 ^ e \<le> q < 2 ^ (e + 1)\<close>.\<close>

definition exponent :: "rat \<Rightarrow> int" where
  "exponent q =
     (if 1 \<le> q then int (bits (nat \<lfloor>q\<rfloor>)) - 1 else - int (bits (nat (\<lceil>1 / q\<rceil> - 1))))"

definition round_half_even :: "rat \<Rightarrow> int" where
  "round_half_even q =
     (let f = \<lfloor>q\<rfloor>; r = q - of_int f
      in if r < 1 / 2 then f else if 1 / 2 < r then f + 1 else if even f then f else f + 1)"

definition double :: "rat \<Rightarrow> rat" where
  "double q =
     (if q = 0 then 0
      else let e = exponent \<bar>q\<bar>
           in sgn q * of_int (round_half_even (\<bar>q\<bar> * 2 powi (52 - e))) * 2 powi (e - 52))"

section \<open>The OpenCV runtimes\<close>

text \<open>
  OpenCV itself (OpenCV.js on the web, \<^verbatim>\<open>cv2\<close> in Python) is not part of the repository.
  Its calls are parameters of the model, and each may throw: \<open>Inl\<close> carries
  \<^verbatim>\<open>String(error)\<close>. An image is its size, its channel count and its bytes in row-major
  order (\<^verbatim>\<open>gray.data\<close>, \<^verbatim>\<open>gray.reshape(-1)\<close>).
\<close>

record Mat =
  rows :: nat
  cols :: nat
  channels :: nat
  data :: "8 word list"

text \<open>OpenCV's constants: the type code of an image of three 8-bit channels and the code of
  the conversion from RGB to gray (\<^verbatim>\<open>cv.CV_8UC3\<close>, \<^verbatim>\<open>cv.COLOR_RGB2GRAY\<close>,
  \<^verbatim>\<open>cv2.COLOR_RGB2GRAY\<close>).\<close>

definition CV_8UC3 :: nat where
  "CV_8UC3 = 16"

definition COLOR_RGB2GRAY :: nat where
  "COLOR_RGB2GRAY = 7"

text \<open>The OpenCV.js module object \<^verbatim>\<open>cv\<close>: \<^verbatim>\<open>cv.VERSION\<close> (may be undefined);
  \<^verbatim>\<open>cv.matFromArray(rows, cols, type, array)\<close>; \<^verbatim>\<open>new cv.Mat()\<close>;
  \<^verbatim>\<open>cv.cvtColor(src, dst, code)\<close>, given by what \<^verbatim>\<open>dst\<close> holds afterwards; whether reading
  \<^verbatim>\<open>mat.data\<close> throws; and whether \<^verbatim>\<open>mat.delete()\<close> throws.\<close>

record cv_runtime =
  VERSION :: "string option"
  matFromArray :: "nat \<Rightarrow> nat \<Rightarrow> nat \<Rightarrow> 8 word list \<Rightarrow> string + Mat"
  new_Mat :: "string + Mat"
  cvtColor :: "Mat \<Rightarrow> Mat \<Rightarrow> nat \<Rightarrow> string + Mat"
  data_throws :: "Mat \<Rightarrow> string option"
  delete_throws :: "Mat \<Rightarrow> string option"

text \<open>The Python module \<^verbatim>\<open>cv2\<close>: \<^verbatim>\<open>cv2.__version__\<close> and \<^verbatim>\<open>cv2.cvtColor(src, code)\<close>.\<close>

record cv2_module =
  cv2_version :: string
  cv2_cvtColor :: "Mat \<Rightarrow> nat \<Rightarrow> string + Mat"

text \<open>What \<^verbatim>\<open>globalThis.cv\<close> may hold (\<^verbatim>\<open>getWebMcvRuntime\<close>, lines 159-165): a factory
  function, a thenable or the module itself. A factory and a thenable are given by what
  awaiting them yields.\<close>

datatype cv_global =
    CvFactory "string + cv_runtime"
  | CvThenable "string + cv_runtime"
  | CvObject cv_runtime

datatype backend = Python | Web

text \<open>An HTTP response as \<^verbatim>\<open>fetch\<close> delivers it: the status and the body, which is
  either what a JSON encoder wrote for a value, or other text, given by the error with
  which \<^verbatim>\<open>response.json()\<close> rejects it.\<close>

datatype http_body = Json json | NotJson string

record http_response =
  status :: nat
  body :: http_body

text \<open>
  The environment of one page: the build-time constants \<^verbatim>\<open>__MCV_BACKEND__\<close> and
  \<^verbatim>\<open>__MCV_OPENCV_URL__\<close>; \<^verbatim>\<open>globalThis.cv\<close> before the script is loaded; the outcome of
  \<^verbatim>\<open>loadScriptOnce(url)\<close> (a rejection, or \<^verbatim>\<open>globalThis.cv\<close> after the load event); whether
  \<^verbatim>\<open>fetch\<close> rejects; the \<^verbatim>\<open>cv2\<close> module of the Flask server; and Python's \<^verbatim>\<open>str()\<close> of a
  decoded JSON number, list or dict. An environment says what each awaited promise settles
  to; promises that never settle come in with the invocations below.
\<close>

record environment =
  MCV_BACKEND :: backend
  MCV_OPENCV_URL :: string
  globalThis_cv :: "cv_global option"
  loadScriptOnce :: "string \<Rightarrow> string + cv_global option"
  fetch_rejects :: "string option"
  cv2 :: cv2_module
  py_repr :: "json \<Rightarrow> string"

section \<open>Module state of \<^verbatim>\<open>src/app.ts\<close>\<close>

text \<open>The module-level \<^verbatim>\<open>let\<close> variables (lines 95-98). \<^verbatim>\<open>cvPromise\<close> is \<^verbatim>\<open>null\<close> or a
  promise, given by what it settles to. \<^verbatim>\<open>selectedMedia\<close> and \<^verbatim>\<open>mediaLibrary\<close>
  (lines 99-103) are further UI variables of the same kind.\<close>

datatype MediaTab = videos | images

datatype MediaLoadState = loading | no_api | fetching | failed | loaded

record module_state =
  cvPromise :: "(string + cv_runtime) option"
  activeMediaTab :: MediaTab
  mediaLoadState :: MediaLoadState
  mediaSearchQuery :: string

section \<open>\<^verbatim>\<open>getWebMcvRuntime\<close> (lines 148-169)\<close>

text \<open>The async closure assigned to \<^verbatim>\<open>cvPromise\<close>.\<close>

definition load_runtime :: "environment \<Rightarrow> string + cv_runtime" where
  "load_runtime env =
     (case (case globalThis_cv env of
              None \<Rightarrow> loadScriptOnce env (MCV_OPENCV_URL env)
            | Some c \<Rightarrow> Inr (Some c)) of
        Inl e \<Rightarrow> Inl e
      | Inr None \<Rightarrow> Inl ''Error: opencv.js runtime not found on window.cv''
      | Inr (Some (CvFactory r)) \<Rightarrow> r
      | Inr (Some (CvThenable r)) \<Rightarrow> r
      | Inr (Some (CvObject cv)) \<Rightarrow> Inr cv)"

definition getWebMcvRuntime ::
  "environment \<Rightarrow> module_state \<Rightarrow> (string + cv_runtime) \<times> module_state" where
  "getWebMcvRuntime env s =
     (case cvPromise s of
        None \<Rightarrow> (let p = load_runtime env in (p, s\<lparr>cvPromise := Some p\<rparr>))
      | Some p \<Rightarrow> (p, s))"

section \<open>The web backend of \<^verbatim>\<open>callMcvApi\<close> (lines 183-213)\<close>

text \<open>The array literal of line 185, which is also the content of the Python array of
  line 210, and \<^verbatim>\<open>Number(value)\<close> of an element of a \<^verbatim>\<open>Uint8Array\<close>.\<close>

definition test_pixels :: "8 word list" where
  "test_pixels = [255, 0, 0, 0, 255, 0, 0, 0, 255]"

definition Number :: "8 word \<Rightarrow> rat" where
  "Number v = of_nat (unat v)"

text \<open>The object \<^verbatim>\<open>response\<close> of lines 188-200, built from what \<^verbatim>\<open>gray\<close> holds.\<close>

definition opencvTest_response :: "cv_runtime \<Rightarrow> Mat \<Rightarrow> json" where
  "opencvTest_response cv gray =
     (let grayValues = map Number (data gray)
      in McvSuccess (JObj
           [(''opencv_version'',
               JStr (case VERSION cv of None \<Rightarrow> ''opencv.js'' | Some v \<Rightarrow> v)),
            (''gray_values'', JArr (map (\<lambda>v. JNum (Fin v)) grayValues)),
            (''shape'', JArr [JNum (Fin (of_nat (rows gray))),
                              JNum (Fin (of_nat (cols gray)))]),
            (''mean_gray'',
               JNum (Fin (if length grayValues > 0
                          then double
                                 (foldl (\<lambda>sum v. double (sum + v)) 0 grayValues
                                    / of_nat (length grayValues))
                          else 0)))]))"

text \<open>The body of the \<^verbatim>\<open>try\<close> block once the runtime is there (lines 185-203). The
  response is built before the two \<^verbatim>\<open>delete()\<close> calls, and returned after them.\<close>

definition opencvTest_web :: "cv_runtime \<Rightarrow> string + json" where
  "opencvTest_web cv =
     (case matFromArray cv 1 3 CV_8UC3 test_pixels of
        Inl e \<Rightarrow> Inl e
      | Inr src \<Rightarrow>
     (case new_Mat cv of
        Inl e \<Rightarrow> Inl e
      | Inr dst \<Rightarrow>
     (case cvtColor cv src dst COLOR_RGB2GRAY of
        Inl e \<Rightarrow> Inl e
      | Inr gray \<Rightarrow>
     (case data_throws cv gray of
        Some e \<Rightarrow> Inl e
      | None \<Rightarrow>
          (let response = opencvTest_response cv gray
           in case delete_throws cv src of
                Some e \<Rightarrow> Inl e
              | None \<Rightarrow>
                  (case delete_throws cv gray of
                     Some e \<Rightarrow> Inl e
                   | None \<Rightarrow> Inr response))))))"

definition callMcvApi_web ::
  "environment \<Rightarrow> module_state \<Rightarrow> McvRequest \<Rightarrow> json \<times> module_state" where
  "callMcvApi_web env s requestBody =
     (if op requestBody \<noteq> ''cv.opencvTest''
      then (McvFailure ''UNKNOWN_OP''
              (''Unsupported operation in web backend: '' @ op requestBody) None, s)
      else
        (case getWebMcvRuntime env s of
           (p, s') \<Rightarrow>
             (case (case p of Inl e \<Rightarrow> Inl e | Inr cv \<Rightarrow> opencvTest_web cv) of
                Inr response \<Rightarrow> (response, s')
              | Inl error \<Rightarrow>
                  (McvFailure ''WEB_BACKEND_ERROR'' ''OpenCV.js call failed'' (Some error), s'))))"

section \<open>The Python backend (\<^verbatim>\<open>build/pipeline/common.js\<close>, lines 209-249)\<close>

text \<open>\<^verbatim>\<open>np.array([[[255, 0, 0], [0, 255, 0], [0, 0, 255]]], dtype=np.uint8)\<close>\<close>

definition rgb :: Mat where
  "rgb = \<lparr>rows = 1, cols = 3, channels = 3, data = test_pixels\<rparr>"

text \<open>\<^verbatim>\<open>float(np.mean(gray))\<close>: numpy adds the bytes in double precision, which is exact for
  any array that fits in memory, and divides the sum by their number; the mean of an empty
  array is NaN.\<close>

definition np_mean :: "8 word list \<Rightarrow> number" where
  "np_mean xs =
     (if xs = [] then NaN
      else Fin (double (of_nat (sum_list (map unat xs)) / of_nat (length xs))))"

definition handle_mcv_cv_opencv_test :: "cv2_module \<Rightarrow> json \<Rightarrow> string + json" where
  "handle_mcv_cv_opencv_test m unused_args =
     (case cv2_cvtColor m rgb COLOR_RGB2GRAY of
        Inl e \<Rightarrow> Inl e
      | Inr gray \<Rightarrow>
          Inr (JObj
            [(''opencv_version'', JStr (cv2_version m)),
             (''gray_values'', JArr (map (\<lambda>v. JNum (Fin (of_nat (unat v)))) (data gray))),
             (''shape'', JArr [JNum (Fin (of_nat (rows gray))),
                               JNum (Fin (of_nat (cols gray)))]),
             (''mean_gray'', JNum (np_mean (data gray)))]))"

text \<open>Python truthiness of a decoded JSON value, for \<^verbatim>\<open>x or {}\<close>.\<close>

fun truthy :: "json \<Rightarrow> bool" where
  "truthy JNull = False"
| "truthy (JBool b) = b"
| "truthy (JNum (Fin q)) = (q \<noteq> 0)"
| "truthy (JNum NaN) = True"
| "truthy (JStr s) = (s \<noteq> [])"
| "truthy (JArr xs) = (xs \<noteq> [])"
| "truthy (JObj kvs) = (kvs \<noteq> [])"

definition or_empty_dict :: "json option \<Rightarrow> json" where
  "or_empty_dict v = (case v of None \<Rightarrow> JObj [] | Some j \<Rightarrow> if truthy j then j else JObj [])"

text \<open>\<^verbatim>\<open>payload.get(k)\<close>: a decoded JSON object keeps the last of duplicate keys; on a value
  that is no dict the attribute is missing and the call raises.\<close>

fun py_get :: "json \<Rightarrow> string \<Rightarrow> string + json option" where
  "py_get (JObj kvs) k = Inr (map_of (rev kvs) k)"
| "py_get _ k = Inl ''AttributeError''"

text \<open>\<^verbatim>\<open>f"{op}"\<close> of what \<^verbatim>\<open>payload.get("op")\<close> returned.\<close>

fun py_str :: "(json \<Rightarrow> string) \<Rightarrow> json option \<Rightarrow> string" where
  "py_str r None = ''None''"
| "py_str r (Some JNull) = ''None''"
| "py_str r (Some (JBool b)) = (if b then ''True'' else ''False'')"
| "py_str r (Some (JStr s)) = s"
| "py_str r (Some j) = r j"

text \<open>\<^verbatim>\<open>jsonify(x)\<close> answers 200; \<^verbatim>\<open>(jsonify(x), 400)\<close> sets the status.\<close>

definition jsonify :: "nat \<Rightarrow> json \<Rightarrow> http_response" where
  "jsonify st j = \<lparr>status = st, body = Json j\<rparr>"

text \<open>The route \<^verbatim>\<open>POST /api/mcv\<close>. The argument is \<^verbatim>\<open>request.get_json(silent=True)\<close>;
  \<open>Inl\<close> is an exception leaving the view function.\<close>

definition api_mcv :: "environment \<Rightarrow> json option \<Rightarrow> string + http_response" where
  "api_mcv env got =
     (let payload = or_empty_dict got in
      case py_get payload ''op'' of
        Inl e \<Rightarrow> Inl e
      | Inr op' \<Rightarrow>
          (case py_get payload ''args'' of
             Inl e \<Rightarrow> Inl e
           | Inr a \<Rightarrow>
               (let args' = or_empty_dict a in
                if op' = Some (JStr ''cv.opencvTest'')
                then (case handle_mcv_cv_opencv_test (cv2 env) args' of
                        Inl e \<Rightarrow> Inl e
                      | Inr d \<Rightarrow> Inr (jsonify 200 (JObj [(''ok'', JBool True), (''data'', d)])))
                else Inr (jsonify 400
                       (JObj [(''ok'', JBool False),
                              (''error'', JObj [(''code'', JStr ''UNKNOWN_OP''),
                                 (''message'', JStr (''Unsupported operation: ''
                                                      @ py_str (py_repr env) op'))])])))))"

text \<open>Flask answers an exception of a view function with status 500 and an HTML page,
  which \<^verbatim>\<open>response.json()\<close> would reject.\<close>

definition flask_post_api_mcv :: "environment \<Rightarrow> json option \<Rightarrow> http_response" where
  "flask_post_api_mcv env got =
     (case api_mcv env got of
        Inl e \<Rightarrow> \<lparr>status = 500, body = NotJson ''SyntaxError: Unexpected token <''\<rparr>
      | Inr r \<Rightarrow> r)"

section \<open>The remote branch of \<^verbatim>\<open>callMcvApi\<close> (lines 216-243)\<close>

text \<open>\<^verbatim>\<open>JSON.stringify(requestBody)\<close> as the server decodes it. The route looks at
  \<^verbatim>\<open>args\<close> only to replace a falsy value by \<^verbatim>\<open>{}\<close>, so what JSON makes of a NaN inside
  \<^verbatim>\<open>args\<close> is left out.\<close>

definition request_json :: "McvRequest \<Rightarrow> json" where
  "request_json r = JObj [(''op'', JStr (op r)), (''args'', args r)]"

text \<open>\<^verbatim>\<open>await fetch("/api/mcv", ...)\<close>: rejected when the backend cannot be reached,
  answered by the Flask route otherwise.\<close>

definition fetch_api_mcv :: "environment \<Rightarrow> McvRequest \<Rightarrow> string + http_response" where
  "fetch_api_mcv env r =
     (case fetch_rejects env of
        Some e \<Rightarrow> Inl e
      | None \<Rightarrow> Inr (flask_post_api_mcv env (Some (request_json r))))"

text \<open>\<^verbatim>\<open>response.ok\<close>\<close>

definition response_ok :: "http_response \<Rightarrow> bool" where
  "response_ok r = (200 \<le> status r \<and> status r \<le> 299)"

text \<open>The decimal digits of a status code, for the template \<^verbatim>\<open>`HTTP ${response.status}`\<close>.\<close>

fun show_nat :: "nat \<Rightarrow> string" where
  "show_nat n =
     (if n < 10 then [char_of (48 + n)]
      else show_nat (n div 10) @ [char_of (48 + n mod 10)])"

declare show_nat.simps [simp del]

text \<open>
  \<^verbatim>\<open>await response.json()\<close>. Python's encoder writes NaN as the bare word \<^verbatim>\<open>NaN\<close>, which
  is no JSON: the browser rejects a body that holds one.
\<close>

fun has_NaN :: "json \<Rightarrow> bool"
  and has_NaN_list :: "json list \<Rightarrow> bool"
  and has_NaN_object :: "(string \<times> json) list \<Rightarrow> bool" where
  "has_NaN (JNum NaN) = True"
| "has_NaN (JArr xs) = has_NaN_list xs"
| "has_NaN (JObj kvs) = has_NaN_object kvs"
| "has_NaN j = False"
| "has_NaN_list [] = False"
| "has_NaN_list (x # xs) = (has_NaN x \<or> has_NaN_list xs)"
| "has_NaN_object [] = False"
| "has_NaN_object (kv # kvs) = (has_NaN (snd kv) \<or> has_NaN_object kvs)"

definition response_json :: "http_response \<Rightarrow> string + json" where
  "response_json response =
     (case body response of
        Json j \<Rightarrow> if has_NaN j then Inl ''SyntaxError: Unexpected token N in JSON'' else Inr j
      | NotJson e \<Rightarrow> Inl e)"

text \<open>Lines 216-243 from the outcome of \<^verbatim>\<open>fetch\<close> on: a body with a 2xx status is parsed
  and returned as it is, cast to the response type without a check.\<close>

definition remote_result :: "string + http_response \<Rightarrow> json" where
  "remote_result fetched =
     (case (case fetched of
              Inl e \<Rightarrow> Inl e
            | Inr response \<Rightarrow>
                if \<not> response_ok response
                then Inr (McvFailure ''HTTP_ERROR'' (''HTTP '' @ show_nat (status response)) None)
                else response_json response) of
        Inr result \<Rightarrow> result
      | Inl error \<Rightarrow>
          McvFailure ''NETWORK_ERROR'' ''Could not reach backend API'' (Some error))"

definition callMcvApi_remote :: "environment \<Rightarrow> McvRequest \<Rightarrow> json" where
  "callMcvApi_remote env requestBody = remote_result (fetch_api_mcv env requestBody)"

section \<open>\<^verbatim>\<open>callMcvApi\<close> (lines 171-244)\<close>

definition callMcvApi ::
  "environment \<Rightarrow> module_state \<Rightarrow> McvRequest \<Rightarrow> json \<times> module_state" where
  "callMcvApi env s requestBody =
     (if MCV_BACKEND env = Web then callMcvApi_web env s requestBody
      else (callMcvApi_remote env requestBody, s))"

text \<open>The states a page can be in: \<^verbatim>\<open>cvPromise\<close> starts as \<^verbatim>\<open>null\<close>, and the backend call
  path is entered only through \<^verbatim>\<open>callMcvApi\<close>.\<close>

inductive reachable :: "environment \<Rightarrow> module_state \<Rightarrow> bool" for env where
  start: "cvPromise s = None \<Longrightarrow> reachable env s"
| call: "reachable env s \<Longrightarrow> reachable env (snd (callMcvApi env s r))"

section \<open>Invocations in general\<close>

text \<open>
  \<^verbatim>\<open>callMcvApi\<close> is an async function, exported as \<^verbatim>\<open>window.MCV_API.mcv.call\<close>
  (lines 258-274). An invocation hands back a promise, which is fulfilled with a value,
  rejected with an error, or never settles. The definitions above give the value for a
  request object when every awaited promise settles and the repository's Flask route
  answers. What follows adds the rest: a caller that passes \<^verbatim>\<open>undefined\<close> or \<^verbatim>\<open>null\<close>,
  awaits that never settle, and another server answering \<^verbatim>\<open>POST /api/mcv\<close>.
\<close>

datatype 'a promise = Fulfilled 'a | Rejected string | Pending

datatype argument = Undefined | Null | Request McvRequest

text \<open>The awaits of the call path: \<^verbatim>\<open>loadScriptOnce\<close> (line 153), the call of a factory
  (line 160), a thenable (line 163), \<^verbatim>\<open>fetch\<close> (line 217) and \<^verbatim>\<open>response.json()\<close>
  (line 233).\<close>

datatype await_point = ScriptLoad | FactoryCall | ThenableAwait | Fetch | ResponseJson

text \<open>A page in general: the environment, which says what its awaits settle to; the awaits
  that never settle; and the answer of a server other than the repository's Flask route,
  when one is behind \<^verbatim>\<open>/api/mcv\<close>.\<close>

record page =
  settled :: environment
  never_settles :: "await_point \<Rightarrow> bool"
  foreign_server :: "http_response option"

text \<open>Whether the closure of \<^verbatim>\<open>getWebMcvRuntime\<close> (lines 150-166) comes to an await that
  never settles.\<close>

fun candidate_pends :: "page \<Rightarrow> cv_global option \<Rightarrow> bool" where
  "candidate_pends pg (Some (CvFactory r)) = never_settles pg FactoryCall"
| "candidate_pends pg (Some (CvThenable r)) = never_settles pg ThenableAwait"
| "candidate_pends pg c = False"

definition load_pends :: "page \<Rightarrow> bool" where
  "load_pends pg =
     (case globalThis_cv (settled pg) of
        None \<Rightarrow>
          never_settles pg ScriptLoad \<or>
          (case loadScriptOnce (settled pg) (MCV_OPENCV_URL (settled pg)) of
             Inl e \<Rightarrow> False
           | Inr c \<Rightarrow> candidate_pends pg c)
      | Some c \<Rightarrow> candidate_pends pg (Some c))"

text \<open>\<^verbatim>\<open>JSON.stringify(requestBody)\<close> as the server decodes it: \<^verbatim>\<open>undefined\<close> gives no body
  at all.\<close>

fun stringify :: "argument \<Rightarrow> json option" where
  "stringify Undefined = None"
| "stringify Null = Some JNull"
| "stringify (Request r) = Some (request_json r)"

text \<open>
  The promise an invocation returns, at a module state whose cached promise, if there is
  one, has settled. On the web backend \<^verbatim>\<open>requestBody.op\<close> is read before the \<^verbatim>\<open>try\<close>
  (line 173), so \<^verbatim>\<open>undefined\<close> and \<^verbatim>\<open>null\<close> reject the promise with the engine's TypeError;
  on the remote branch everything happens inside the \<^verbatim>\<open>try\<close>.
\<close>

definition callMcvApi_invocation :: "page \<Rightarrow> module_state \<Rightarrow> argument \<Rightarrow> json promise" where
  "callMcvApi_invocation pg s requestBody =
     (if MCV_BACKEND (settled pg) = Web
      then (case requestBody of
              Undefined \<Rightarrow> Rejected ''TypeError: requestBody is undefined''
            | Null \<Rightarrow> Rejected ''TypeError: requestBody is null''
            | Request r \<Rightarrow>
                if op r = ''cv.opencvTest'' \<and> cvPromise s = None \<and> load_pends pg
                then Pending
                else Fulfilled (fst (callMcvApi_web (settled pg) s r)))
      else if never_settles pg Fetch then Pending
      else (let fetched =
                  (case fetch_rejects (settled pg) of
                     Some e \<Rightarrow> Inl e
                   | None \<Rightarrow>
                       Inr (case foreign_server pg of
                              Some response \<Rightarrow> response
                            | None \<Rightarrow> flask_post_api_mcv (settled pg) (stringify requestBody)))
            in if (case fetched of
                     Inl e \<Rightarrow> False
                   | Inr response \<Rightarrow> response_ok response \<and> never_settles pg ResponseJson)
               then Pending
               else Fulfilled (remote_result fetched)))"

section \<open>Requests of the specified solver operations\<close>

text \<open>
  The argument formats the specification gives for \<^verbatim>\<open>solvePose\<close>
  (an array of \<^verbatim>\<open>{pixel:[x,y], world:[x,y,z]}\<close>) and \<^verbatim>\<open>solveTickBoundary\<close>
  (\<^verbatim>\<open>{segmentBefore: [{frame, pixel:[x,y]}], segmentAfter: [...]}\<close>), as requests of the
  envelope. No function of the source reads these formats; they are here to state what the
  envelope answers to such requests.
\<close>

record correspondence =
  pixel :: "rat \<times> rat"
  world :: "rat \<times> rat \<times> rat"

record sample =
  frame :: rat
  position :: "rat \<times> rat"

definition num :: "rat \<Rightarrow> json" where
  "num q = JNum (Fin q)"

definition correspondence_json :: "correspondence \<Rightarrow> json" where
  "correspondence_json c =
     (case (pixel c, world c) of
        ((u, v), (x, y, z)) \<Rightarrow>
          JObj [(''pixel'', JArr [num u, num v]), (''world'', JArr [num x, num y, num z])])"

definition solvePose_request :: "correspondence list \<Rightarrow> McvRequest" where
  "solvePose_request cs = \<lparr>op = ''solvePose'', args = JArr (map correspondence_json cs)\<rparr>"

definition sample_json :: "sample \<Rightarrow> json" where
  "sample_json t =
     (case position t of
        (u, v) \<Rightarrow> JObj [(''frame'', num (frame t)), (''pixel'', JArr [num u, num v])])"

definition solveTickBoundary_request :: "sample list \<Rightarrow> sample list \<Rightarrow> McvRequest" where
  "solveTickBoundary_request before after =
     \<lparr>op = ''solveTickBoundary'',
      args = JObj [(''segmentBefore'', JArr (map sample_json before)),
                   (''segmentAfter'', JArr (map sample_json after))]\<rparr>"

text \<open>Degenerate correspondence sets, in exact arithmetic: the points are coplanar when the
  differences to the first point span no volume, and collinear when they span no area.\<close>

definition det3 :: "rat \<times> rat \<times> rat \<Rightarrow> rat \<times> rat \<times> rat \<Rightarrow> rat \<times> rat \<times> rat \<Rightarrow> rat" where
  "det3 a b c =
     (case (a, b, c) of
        ((a1, a2, a3), (b1, b2, b3), (c1, c2, c3)) \<Rightarrow>
          a1 * (b2 * c3 - b3 * c2) - a2 * (b1 * c3 - b3 * c1) + a3 * (b1 * c2 - b2 * c1))"

definition sub3 :: "rat \<times> rat \<times> rat \<Rightarrow> rat \<times> rat \<times> rat \<Rightarrow> rat \<times> rat \<times> rat" where
  "sub3 a b = (case (a, b) of ((a1, a2, a3), (b1, b2, b3)) \<Rightarrow> (a1 - b1, a2 - b2, a3 - b3))"

definition cross2 :: "rat \<times> rat \<Rightarrow> rat \<times> rat \<Rightarrow> rat \<times> rat \<Rightarrow> rat" where
  "cross2 o' a b =
     (case (o', a, b) of
        ((o1, o2), (a1, a2), (b1, b2)) \<Rightarrow> (a1 - o1) * (b2 - o2) - (a2 - o2) * (b1 - o1))"

fun coplanar :: "(rat \<times> rat \<times> rat) list \<Rightarrow> bool" where
  "coplanar [] = True"
| "coplanar (p # ps) =
     list_all (\<lambda>a. list_all (\<lambda>b. list_all (\<lambda>c.
       det3 (sub3 a p) (sub3 b p) (sub3 c p) = 0) ps) ps) ps"

fun collinear :: "(rat \<times> rat) list \<Rightarrow> bool" where
  "collinear [] = True"
| "collinear (p # ps) = list_all (\<lambda>a. list_all (\<lambda>b. cross2 p a b = 0) ps) ps"

section \<open>A concrete page and server\<close>

text \<open>
  An OpenCV runtime to run the model on: \<^verbatim>\<open>matFromArray\<close> builds the three-channel image
  it is given, and the conversion to gray uses OpenCV's 8-bit fixed-point weights
  (4899, 9617 and 1868 of 16384, rounded).
\<close>

definition gray_of :: "8 word \<Rightarrow> 8 word \<Rightarrow> 8 word \<Rightarrow> 8 word" where
  "gray_of r g b = of_nat ((unat r * 4899 + unat g * 9617 + unat b * 1868 + 8192) div 16384)"

fun gray_pixels :: "8 word list \<Rightarrow> 8 word list" where
  "gray_pixels (r # g # b # rest) = gray_of r g b # gray_pixels rest"
| "gray_pixels _ = []"

definition rgb2gray :: "Mat \<Rightarrow> nat \<Rightarrow> string + Mat" where
  "rgb2gray m code =
     (if code = COLOR_RGB2GRAY \<and> channels m = 3 \<and> length (data m) = rows m * cols m * 3
      then Inr \<lparr>rows = rows m, cols = cols m, channels = 1, data = gray_pixels (data m)\<rparr>
      else Inl ''Error: bad image or code'')"

definition opencv_js :: cv_runtime where
  "opencv_js =
     \<lparr>VERSION = Some ''4.10.0'',
      matFromArray = (\<lambda>r c t xs.
        if t = CV_8UC3 \<and> length xs = r * c * 3
        then Inr \<lparr>rows = r, cols = c, channels = 3, data = xs\<rparr>
        else Inl ''Error: bad array''),
      new_Mat = Inr \<lparr>rows = 0, cols = 0, channels = 1, data = []\<rparr>,
      cvtColor = (\<lambda>src dst code. rgb2gray src code),
      data_throws = (\<lambda>m. None),
      delete_throws = (\<lambda>m. None)\<rparr>"

definition opencv_python :: cv2_module where
  "opencv_python = \<lparr>cv2_version = ''4.10.0'', cv2_cvtColor = rgb2gray\<rparr>"

definition web_page :: environment where
  "web_page =
     \<lparr>MCV_BACKEND = Web, MCV_OPENCV_URL = ''/opencv.js'',
      globalThis_cv = Some (CvObject opencv_js),
      loadScriptOnce = (\<lambda>url. Inl (''Error: Failed to load '' @ url)),
      fetch_rejects = None, cv2 = opencv_python, py_repr = (\<lambda>j. ''?'')\<rparr>"

definition python_page :: environment where
  "python_page = web_page\<lparr>MCV_BACKEND := Python, globalThis_cv := None\<rparr>"

text \<open>A page whose site does not serve OpenCV.js: \<^verbatim>\<open>globalThis.cv\<close> is undefined and the
  script fails to load.\<close>

definition bare_web_page :: environment where
  "bare_web_page = web_page\<lparr>globalThis_cv := None\<rparr>"

text \<open>An OpenCV.js of another version, and one whose conversion returns a dark 1x3 image.\<close>

definition older_opencv_js :: cv_runtime where
  "older_opencv_js = opencv_js\<lparr>VERSION := Some ''4.5.0''\<rparr>"

definition dim_opencv_js :: cv_runtime where
  "dim_opencv_js =
     opencv_js\<lparr>cvtColor :=
       (\<lambda>src dst code. Inr \<lparr>rows = 1, cols = 3, channels = 1, data = [1, 0, 0]\<rparr>)\<rparr>"

definition dim_page :: environment where
  "dim_page = web_page\<lparr>globalThis_cv := Some (CvObject dim_opencv_js)\<rparr>"

text \<open>Pages in general: one where every await settles and the Flask route answers; one
  whose \<^verbatim>\<open>globalThis.cv\<close> is a thenable that never settles; and one where another server
  answers \<^verbatim>\<open>POST /api/mcv\<close> with status 200 and the body \<^verbatim>\<open>{}\<close>.\<close>

definition plain :: "environment \<Rightarrow> page" where
  "plain env = \<lparr>settled = env, never_settles = (\<lambda>p. False), foreign_server = None\<rparr>"

definition hanging_page :: page where
  "hanging_page =
     \<lparr>settled = web_page\<lparr>globalThis_cv := Some (CvThenable (Inr opencv_js))\<rparr>,
      never_settles = (\<lambda>p. p = ThenableAwait), foreign_server = None\<rparr>"

definition foreign_page :: page where
  "foreign_page =
     \<lparr>settled = python_page, never_settles = (\<lambda>p. False),
      foreign_server = Some \<lparr>status = 200, body = Json (JObj [])\<rparr>\<rparr>"

text \<open>The module state when the script starts (lines 95-98).\<close>

definition initial_state :: module_state where
  "initial_state =
     \<lparr>cvPromise = None, activeMediaTab = videos, mediaLoadState = loading,
      mediaSearchQuery = []\<rparr>"

definition opencvTest_request :: "json \<Rightarrow> McvRequest" where
  "opencvTest_request a = \<lparr>op = ''cv.opencvTest'', args = a\<rparr>"

text \<open>Six correspondences on the plane \<open>z = 0\<close> whose pixels lie on the line \<open>v = 0\<close>.\<close>

definition flat_points :: "correspondence list" where
  "flat_points =
     [\<lparr>pixel = (0, 0), world = (0, 0, 0)\<rparr>, \<lparr>pixel = (1, 0), world = (1, 0, 0)\<rparr>,
      \<lparr>pixel = (2, 0), world = (2, 1, 0)\<rparr>, \<lparr>pixel = (3, 0), world = (3, 4, 0)\<rparr>,
      \<lparr>pixel = (4, 0), world = (4, 9, 0)\<rparr>, \<lparr>pixel = (5, 0), world = (5, 16, 0)\<rparr>]"

text \<open>Two segments of two samples each, meeting at a right angle.\<close>

definition segment_before :: "sample list" where
  "segment_before = [\<lparr>frame = 9, position = (0, 0)\<rparr>, \<lparr>frame = 10, position = (1, 0)\<rparr>]"

definition segment_after :: "sample list" where
  "segment_after = [\<lparr>frame = 11, position = (2, 1)\<rparr>, \<lparr>frame = 12, position = (2, 2)\<rparr>]"

section \<open>Basic facts\<close>

subsection \<open>Reading responses\<close>

lemma error_code_McvFailure [simp]: "error_code (McvFailure c m d) = Some c"
  by (simp add: McvFailure_def error_code_def)

lemma is_success_McvFailure [simp]: "\<not> is_success (McvFailure c m d)"
  by (simp add: McvFailure_def is_success_def)

lemma is_McvResponse_McvFailure [simp]: "is_McvResponse (McvFailure c m d)"
  by (simp add: McvFailure_def)

lemma is_McvResponse_McvSuccess [simp]: "is_McvResponse (McvSuccess d)"
  by (simp add: McvSuccess_def)

lemma is_success_McvSuccess [simp]: "is_success (McvSuccess d)"
  by (simp add: McvSuccess_def is_success_def)

lemma McvSuccess_inject [simp]: "McvSuccess a = McvSuccess b \<longleftrightarrow> a = b"
  by (simp add: McvSuccess_def)

lemma McvFailure_not_McvSuccess [simp]: "McvFailure c m d \<noteq> McvSuccess a"
  by (simp add: McvSuccess_def McvFailure_def)

lemma show_nat_400: "show_nat 400 = ''400''"
  by code_simp

lemma show_nat_500: "show_nat 500 = ''500''"
  by code_simp

lemma has_NaN_McvFailure [simp]: "\<not> has_NaN (McvFailure c m d)"
  by (cases d) (simp_all add: McvFailure_def)

lemma has_NaN_McvSuccess [simp]: "has_NaN (McvSuccess d) = has_NaN d"
  by (simp add: McvSuccess_def)

subsection \<open>Doubles\<close>

lemma bits_le: "n < 2 ^ k \<Longrightarrow> bits n \<le> k"
proof (induction n arbitrary: k rule: bits.induct)
  case (1 n)
  show ?case
  proof (cases "n = 0")
    case True
    then show ?thesis by (simp add: bits.simps)
  next
    case False
    with "1.prems" obtain j where k: "k = Suc j" by (cases k) auto
    with "1.prems" have "n div 2 < 2 ^ j" by auto
    with "1.IH" [OF False] have "bits (n div 2) \<le> j" .
    with False k show ?thesis by (simp add: bits.simps [of n])
  qed
qed

lemma round_half_even_int [simp]: "round_half_even (of_int z) = z"
  by (simp add: round_half_even_def)

text \<open>Doubles represent the integers below \<open>2 ^ 53\<close> exactly.\<close>

lemma double_nat:
  assumes "n < 2 ^ 53"
  shows "double (of_nat n) = of_nat n"
proof (cases "n = 0")
  case True
  then show ?thesis by (simp add: double_def)
next
  case False
  define e where "e = exponent (of_nat n)"
  have q1: "(1::rat) \<le> of_nat n" using False by simp
  have "e = int (bits n) - 1" using q1 by (simp add: e_def exponent_def)
  with bits_le [OF assms] have le: "e \<le> 52" by simp
  define k where "k = nat (52 - e)"
  have k: "52 - e = int k" using le by (simp add: k_def)
  have k': "e - 52 = - int k" using le by (simp add: k_def)
  have "(of_nat n :: rat) * 2 powi (52 - e) = of_int (int n * 2 ^ k)"
    by (simp add: k power_int_def)
  then have r: "round_half_even (of_nat n * 2 powi (52 - e)) = int n * 2 ^ k"
    by (simp only: round_half_even_int)
  have "double (of_nat n) = of_int (int n * 2 ^ k) * 2 powi (e - 52)"
    using False r by (simp add: double_def e_def [symmetric] Let_def)
  also have "\<dots> = of_nat n"
    by (simp add: k' power_int_minus field_simps)
  finally show ?thesis .
qed

lemma double_85: "double (255 / 3) = 85"
  by code_simp

lemma double_third: "double (1 / 3) = 6004799503160661 / 18014398509481984"
  by code_simp

text \<open>The \<^verbatim>\<open>reduce\<close> of line 197 adds exactly as long as the sum stays below \<open>2 ^ 53\<close>.\<close>

lemma foldl_double_sum:
  "a + sum_list (map unat ws) < 2 ^ 53 \<Longrightarrow>
   foldl (\<lambda>sum v. double (sum + v)) (of_nat a) (map Number (ws :: 8 word list)) =
     of_nat (a + sum_list (map unat ws))"
proof (induction ws arbitrary: a)
  case Nil
  then show ?case by simp
next
  case (Cons w ws)
  have "of_nat a + Number w = (of_nat (a + unat w) :: rat)" by (simp add: Number_def)
  moreover have "a + unat w < 2 ^ 53" using Cons.prems by simp
  ultimately have "double (of_nat a + Number w) = of_nat (a + unat w)"
    by (simp only: double_nat)
  moreover have "a + unat w + sum_list (map unat ws) < 2 ^ 53" using Cons.prems by simp
  ultimately show ?case using Cons.IH [of "a + unat w"] by (simp add: add.assoc)
qed

lemma sum_bytes_le: "sum_list (map unat (ws :: 8 word list)) \<le> 255 * length ws"
proof (induction ws)
  case Nil
  then show ?case by simp
next
  case (Cons w ws)
  have "unat w < 2 ^ 8" using unsigned_less [of w] by simp
  then have "unat w \<le> 255" by simp
  with Cons show ?case by simp
qed

lemma sum_bytes_exact:
  assumes "length (ws :: 8 word list) < 2 ^ 45"
  shows "foldl (\<lambda>sum v. double (sum + v)) 0 (map Number ws) = of_nat (sum_list (map unat ws))"
proof -
  have "255 * length ws < 256 * 2 ^ 45" using assms by simp
  with sum_bytes_le [of ws] have "0 + sum_list (map unat ws) < 2 ^ 53" by simp
  from foldl_double_sum [OF this] show ?thesis by simp
qed

subsection \<open>Requests with an operation other than \<^verbatim>\<open>cv.opencvTest\<close>\<close>

lemma callMcvApi_web_unknown_op:
  "op r \<noteq> ''cv.opencvTest'' \<Longrightarrow>
   callMcvApi_web env s r =
     (McvFailure ''UNKNOWN_OP'' (''Unsupported operation in web backend: '' @ op r) None, s)"
  by (simp add: callMcvApi_web_def)

lemma api_mcv_unknown_op:
  "op r \<noteq> ''cv.opencvTest'' \<Longrightarrow>
   api_mcv env (Some (request_json r)) =
     Inr (jsonify 400 (McvFailure ''UNKNOWN_OP'' (''Unsupported operation: '' @ op r) None))"
  by (simp add: api_mcv_def request_json_def or_empty_dict_def McvFailure_def)

lemma callMcvApi_remote_unknown_op:
  "op r \<noteq> ''cv.opencvTest'' \<Longrightarrow>
   callMcvApi_remote env r =
     (case fetch_rejects env of
        Some e \<Rightarrow> McvFailure ''NETWORK_ERROR'' ''Could not reach backend API'' (Some e)
      | None \<Rightarrow> McvFailure ''HTTP_ERROR'' ''HTTP 400'' None)"
  by (simp add: callMcvApi_remote_def remote_result_def fetch_api_mcv_def
      flask_post_api_mcv_def api_mcv_unknown_op jsonify_def response_ok_def show_nat_400
      split: option.splits)

lemma callMcvApi_unknown_op:
  "op r \<noteq> ''cv.opencvTest'' \<Longrightarrow>
   callMcvApi env s r =
     (McvFailure
        (if MCV_BACKEND env = Web then ''UNKNOWN_OP''
         else if fetch_rejects env = None then ''HTTP_ERROR'' else ''NETWORK_ERROR'')
        (if MCV_BACKEND env = Web then ''Unsupported operation in web backend: '' @ op r
         else if fetch_rejects env = None then ''HTTP 400'' else ''Could not reach backend API'')
        (if MCV_BACKEND env = Web then None else fetch_rejects env), s)"
  by (auto simp add: callMcvApi_def callMcvApi_web_unknown_op callMcvApi_remote_unknown_op
      split: option.splits)

subsection \<open>The module state along a call\<close>

lemma callMcvApi_state:
  "snd (callMcvApi env s r) =
     (if MCV_BACKEND env = Web \<and> op r = ''cv.opencvTest'' \<and> cvPromise s = None
      then s\<lparr>cvPromise := Some (load_runtime env)\<rparr> else s)"
  by (auto simp add: callMcvApi_def callMcvApi_web_def getWebMcvRuntime_def Let_def
      split: option.splits sum.splits)

lemma callMcvApi_reads_cvPromise_only:
  "cvPromise s = cvPromise s' \<Longrightarrow> fst (callMcvApi env s r) = fst (callMcvApi env s' r)"
  by (auto simp add: callMcvApi_def callMcvApi_web_def getWebMcvRuntime_def Let_def
      split: option.splits sum.splits)

lemma reachable_cache:
  "reachable env s \<Longrightarrow> cvPromise s = None \<or> cvPromise s = Some (load_runtime env)"
  by (induction rule: reachable.induct) (auto simp add: callMcvApi_state)

lemma reachable_initial: "reachable env initial_state"
  by (rule reachable.start) (simp add: initial_state_def)

subsection \<open>Requests with the operation \<^verbatim>\<open>cv.opencvTest\<close>\<close>

lemma api_mcv_opencvTest:
  "op r = ''cv.opencvTest'' \<Longrightarrow>
   api_mcv env (Some (request_json r)) =
     (case handle_mcv_cv_opencv_test (cv2 env) (or_empty_dict (Some (args r))) of
        Inl e \<Rightarrow> Inl e
      | Inr d \<Rightarrow> Inr (jsonify 200 (McvSuccess d)))"
  by (cases "truthy (args r)")
    (simp_all add: api_mcv_def request_json_def or_empty_dict_def McvSuccess_def
      split: sum.splits)

lemma handler_ignores_args:
  "handle_mcv_cv_opencv_test m a = handle_mcv_cv_opencv_test m b"
  by (simp add: handle_mcv_cv_opencv_test_def)

lemma callMcvApi_web_opencvTest:
  "op r = ''cv.opencvTest'' \<Longrightarrow>
   cvPromise s = None \<or> cvPromise s = Some (load_runtime env) \<Longrightarrow>
   fst (callMcvApi_web env s r) =
     (case (case load_runtime env of Inl e \<Rightarrow> Inl e | Inr cv \<Rightarrow> opencvTest_web cv) of
        Inr response \<Rightarrow> response
      | Inl error \<Rightarrow> McvFailure ''WEB_BACKEND_ERROR'' ''OpenCV.js call failed'' (Some error))"
  by (auto simp add: callMcvApi_web_def getWebMcvRuntime_def Let_def split: sum.splits)

lemma callMcvApi_remote_opencvTest:
  "op r = ''cv.opencvTest'' \<Longrightarrow>
   callMcvApi_remote env r =
     (case fetch_rejects env of
        Some e \<Rightarrow> McvFailure ''NETWORK_ERROR'' ''Could not reach backend API'' (Some e)
      | None \<Rightarrow>
          (case handle_mcv_cv_opencv_test (cv2 env) (JObj []) of
             Inl e \<Rightarrow> McvFailure ''HTTP_ERROR'' ''HTTP 500'' None
           | Inr d \<Rightarrow>
               if has_NaN (McvSuccess d)
               then McvFailure ''NETWORK_ERROR'' ''Could not reach backend API''
                      (Some ''SyntaxError: Unexpected token N in JSON'')
               else McvSuccess d))"
  using handler_ignores_args [of "cv2 env" "or_empty_dict (Some (args r))" "JObj []"]
  by (simp add: callMcvApi_remote_def remote_result_def response_json_def fetch_api_mcv_def
      flask_post_api_mcv_def api_mcv_opencvTest jsonify_def response_ok_def show_nat_500
      split: option.splits sum.splits)

lemma callMcvApi_opencvTest:
  "op r = ''cv.opencvTest'' \<Longrightarrow> reachable env s \<Longrightarrow>
   fst (callMcvApi env s r) =
     (if MCV_BACKEND env = Web
      then (case (case load_runtime env of Inl e \<Rightarrow> Inl e | Inr cv \<Rightarrow> opencvTest_web cv) of
              Inr response \<Rightarrow> response
            | Inl error \<Rightarrow>
                McvFailure ''WEB_BACKEND_ERROR'' ''OpenCV.js call failed'' (Some error))
      else callMcvApi_remote env (opencvTest_request JNull))"
  using reachable_cache [of env s]
  by (simp add: callMcvApi_def callMcvApi_web_opencvTest callMcvApi_remote_opencvTest
      opencvTest_request_def)

subsection \<open>Which calls succeed\<close>

lemma opencvTest_web_Inr:
  "opencvTest_web cv = Inr j \<Longrightarrow>
   \<exists>src dst gray. matFromArray cv 1 3 CV_8UC3 test_pixels = Inr src
      \<and> new_Mat cv = Inr dst
      \<and> cvtColor cv src dst COLOR_RGB2GRAY = Inr gray
      \<and> j = opencvTest_response cv gray"
  by (auto simp add: opencvTest_web_def Let_def split: sum.splits option.splits)

lemma opencvTest_web_success:
  "opencvTest_web cv = Inr j \<Longrightarrow> \<exists>d. j = McvSuccess d"
  by (auto simp add: opencvTest_response_def Let_def dest!: opencvTest_web_Inr)

lemma handler_Inr:
  "handle_mcv_cv_opencv_test m a = Inr d \<Longrightarrow>
   \<exists>gray. cv2_cvtColor m rgb COLOR_RGB2GRAY = Inr gray
      \<and> d = JObj
            [(''opencv_version'', JStr (cv2_version m)),
             (''gray_values'', JArr (map (\<lambda>v. JNum (Fin (of_nat (unat v)))) (data gray))),
             (''shape'', JArr [JNum (Fin (of_nat (rows gray))),
                               JNum (Fin (of_nat (cols gray)))]),
             (''mean_gray'', JNum (np_mean (data gray)))]"
  by (auto simp add: handle_mcv_cv_opencv_test_def split: sum.splits)

lemma flask_ok_success:
  "response_ok (flask_post_api_mcv env got) \<Longrightarrow>
   \<exists>d. body (flask_post_api_mcv env got) = Json (McvSuccess d)"
  by (auto simp add: flask_post_api_mcv_def api_mcv_def response_ok_def jsonify_def Let_def
      McvSuccess_def split: sum.splits if_splits)

lemma callMcvApi_web_envelope: "is_McvResponse (fst (callMcvApi_web env s r))"
  by (auto simp add: callMcvApi_web_def split: prod.splits sum.splits
      dest: opencvTest_web_success)

text \<open>What lines 223-243 make of a fetched response is an envelope, unless the response
  has a 2xx status and a JSON body that is none.\<close>

lemma remote_result_envelope:
  "is_McvResponse (remote_result fetched) \<or>
   (\<exists>response. fetched = Inr response \<and> response_ok response
      \<and> body response = Json (remote_result fetched))"
  by (cases fetched; cases "body (projr fetched)")
    (auto simp add: remote_result_def response_json_def)

lemma remote_result_flask: "is_McvResponse (remote_result (Inr (flask_post_api_mcv env got)))"
proof (cases "response_ok (flask_post_api_mcv env got)")
  case True
  from flask_ok_success [OF True] obtain d
    where "body (flask_post_api_mcv env got) = Json (McvSuccess d)" ..
  with True show ?thesis by (simp add: remote_result_def response_json_def)
next
  case False
  then show ?thesis by (simp add: remote_result_def)
qed

lemma callMcvApi_remote_envelope: "is_McvResponse (callMcvApi_remote env r)"
  by (cases "fetch_rejects env")
    (simp_all add: callMcvApi_remote_def fetch_api_mcv_def remote_result_flask,
     simp add: remote_result_def)

lemma callMcvApi_web_success:
  "fst (callMcvApi_web env s r) = McvSuccess d \<Longrightarrow> \<exists>cv. opencvTest_web cv = Inr (McvSuccess d)"
  by (auto simp add: callMcvApi_web_def split: if_splits prod.splits sum.splits)

lemma callMcvApi_remote_success:
  "callMcvApi_remote env r = McvSuccess d \<Longrightarrow>
   handle_mcv_cv_opencv_test (cv2 env) (JObj []) = Inr d \<and> \<not> has_NaN d"
  by (cases "op r = ''cv.opencvTest''")
    (auto simp add: callMcvApi_remote_opencvTest callMcvApi_remote_unknown_op
      split: option.splits sum.splits if_splits)

subsection \<open>What a success holds\<close>

lemma web_mean:
  assumes "length (ws :: 8 word list) < 2 ^ 45"
  shows "(if length (map Number ws) > 0
          then double (foldl (\<lambda>sum v. double (sum + v)) 0 (map Number ws)
                         / of_nat (length (map Number ws)))
          else 0) =
         (if ws = [] then 0
          else double (of_nat (sum_list (map unat ws)) / of_nat (length ws)))"
  by (simp add: sum_bytes_exact [OF assms])

lemma no_NaN_Fin_list [simp]: "\<not> has_NaN_list (map (\<lambda>v. JNum (Fin (f v))) xs)"
  by (induction xs) simp_all

lemma opencvTest_response_fields:
  assumes "opencvTest_response cv gray = McvSuccess d"
  shows "field ''gray_values'' d = Some (JArr (map (\<lambda>v. num (of_nat (unat v))) (data gray)))"
    and "field ''shape'' d = Some (JArr [num (of_nat (rows gray)), num (of_nat (cols gray))])"
    and "length (data gray) < 2 ^ 45 \<Longrightarrow>
         field ''mean_gray'' d =
           Some (num (if data gray = [] then 0
                      else double (of_nat (sum_list (map unat (data gray)))
                                     / of_nat (length (data gray)))))"
    and "\<not> has_NaN d"
proof -
  have d: "d = JObj
      [(''opencv_version'', JStr (case VERSION cv of None \<Rightarrow> ''opencv.js'' | Some v \<Rightarrow> v)),
       (''gray_values'', JArr (map (\<lambda>v. JNum (Fin v)) (map Number (data gray)))),
       (''shape'', JArr [JNum (Fin (of_nat (rows gray))), JNum (Fin (of_nat (cols gray)))]),
       (''mean_gray'',
          JNum (Fin (if length (map Number (data gray)) > 0
                     then double (foldl (\<lambda>sum v. double (sum + v)) 0 (map Number (data gray))
                                    / of_nat (length (map Number (data gray))))
                     else 0)))]"
    using assms by (simp add: opencvTest_response_def Let_def)
  show "field ''gray_values'' d = Some (JArr (map (\<lambda>v. num (of_nat (unat v))) (data gray)))"
    by (simp add: d num_def Number_def comp_def)
  show "field ''shape'' d = Some (JArr [num (of_nat (rows gray)), num (of_nat (cols gray))])"
    by (simp add: d num_def)
  show "field ''mean_gray'' d =
           Some (num (if data gray = [] then 0
                      else double (of_nat (sum_list (map unat (data gray)))
                                     / of_nat (length (data gray)))))"
    if "length (data gray) < 2 ^ 45"
    using web_mean [OF that] by (simp add: d num_def)
  show "\<not> has_NaN d" by (simp add: d comp_def)
qed

lemma handler_fields:
  assumes "handle_mcv_cv_opencv_test m a = Inr d" and "\<not> has_NaN d"
  shows "\<exists>gray. cv2_cvtColor m rgb COLOR_RGB2GRAY = Inr gray
      \<and> data gray \<noteq> []
      \<and> field ''gray_values'' d = Some (JArr (map (\<lambda>v. num (of_nat (unat v))) (data gray)))
      \<and> field ''shape'' d = Some (JArr [num (of_nat (rows gray)), num (of_nat (cols gray))])
      \<and> field ''mean_gray'' d =
           Some (num (double (of_nat (sum_list (map unat (data gray)))
                                / of_nat (length (data gray)))))"
proof -
  from handler_Inr [OF assms(1)] obtain gray
    where g: "cv2_cvtColor m rgb COLOR_RGB2GRAY = Inr gray"
      and d: "d = JObj
            [(''opencv_version'', JStr (cv2_version m)),
             (''gray_values'', JArr (map (\<lambda>v. JNum (Fin (of_nat (unat v)))) (data gray))),
             (''shape'', JArr [JNum (Fin (of_nat (rows gray))),
                               JNum (Fin (of_nat (cols gray)))]),
             (''mean_gray'', JNum (np_mean (data gray)))]"
    by blast
  from assms(2) have ne: "data gray \<noteq> []"
    by (auto simp add: d np_mean_def)
  show ?thesis
    by (rule exI [of _ gray]) (simp add: g ne d np_mean_def num_def)
qed

subsection \<open>Invocations in general\<close>

lemma load_pends_settles: "(\<forall>p. \<not> never_settles pg p) \<Longrightarrow> \<not> load_pends pg"
  by (auto simp add: load_pends_def split: option.splits sum.splits
      elim!: candidate_pends.elims)

lemma callMcvApi_invocation_settled:
  "(\<forall>p. \<not> never_settles pg p) \<Longrightarrow> foreign_server pg = None \<Longrightarrow>
   callMcvApi_invocation pg s (Request r) = Fulfilled (fst (callMcvApi (settled pg) s r))"
  by (simp add: callMcvApi_invocation_def load_pends_settles callMcvApi_def
      callMcvApi_remote_def fetch_api_mcv_def Let_def split: option.splits)

subsection \<open>The concrete page and server\<close>

lemma op_solvePose [simp]: "op (solvePose_request cs) = ''solvePose''"
  by (simp add: solvePose_request_def)

lemma op_solveTickBoundary [simp]:
  "op (solveTickBoundary_request before after) = ''solveTickBoundary''"
  by (simp add: solveTickBoundary_request_def)

lemma op_opencvTest [simp]: "op (opencvTest_request a) = ''cv.opencvTest''"
  by (simp add: opencvTest_request_def)

lemma MCV_BACKEND_web_page [simp]: "MCV_BACKEND web_page = Web"
  by (simp add: web_page_def)

lemma MCV_BACKEND_python_page [simp]: "MCV_BACKEND python_page = Python"
  by (simp add: python_page_def)

lemma fetch_rejects_web_page [simp]: "fetch_rejects web_page = None"
  by (simp add: web_page_def)

lemma fetch_rejects_python_page [simp]: "fetch_rejects python_page = None"
  by (simp add: python_page_def web_page_def)

lemma cv2_web_page [simp]: "cv2 web_page = opencv_python"
  by (simp add: web_page_def)

lemma cv2_python_page [simp]: "cv2 python_page = opencv_python"
  by (simp add: python_page_def web_page_def)

lemma length_flat_points [simp]: "length flat_points = 6"
  by (simp add: flat_points_def)

lemma flat_points_degenerate:
  "coplanar (map world flat_points) \<and> collinear (map pixel flat_points)"
  by (simp add: flat_points_def det3_def sub3_def cross2_def)

lemma load_runtime_web_page: "load_runtime web_page = Inr opencv_js"
  by (simp add: load_runtime_def web_page_def)

lemma gray_test_pixels: "gray_pixels test_pixels = [76, 150, 29]"
  by (simp add: test_pixels_def gray_of_def)

lemma rgb2gray_rgb:
  "rgb2gray rgb COLOR_RGB2GRAY = Inr \<lparr>rows = 1, cols = 3, channels = 1, data = [76, 150, 29]\<rparr>"
  by (simp add: rgb2gray_def rgb_def gray_test_pixels) (simp add: test_pixels_def)

lemma matFromArray_opencv_js: "matFromArray opencv_js 1 3 CV_8UC3 test_pixels = Inr rgb"
  by (simp add: opencv_js_def rgb_def test_pixels_def)

lemma double_85': "double 85 = 85"
  by code_simp

lemma VERSION_opencv_js [simp]: "VERSION opencv_js = Some ''4.10.0''"
  by (simp add: opencv_js_def)

lemma opencvTest_response_85:
  "opencvTest_response cv \<lparr>rows = 1, cols = 3, channels = 1, data = [76, 150, 29]\<rparr> =
     McvSuccess (JObj
       [(''opencv_version'', JStr (case VERSION cv of None \<Rightarrow> ''opencv.js'' | Some v \<Rightarrow> v)),
        (''gray_values'', JArr [num 76, num 150, num 29]),
        (''shape'', JArr [num 1, num 3]),
        (''mean_gray'', num 85)])"
  using sum_bytes_exact [of "[76, 150, 29]"]
  by (simp add: opencvTest_response_def Let_def num_def Number_def double_85')

lemma opencvTest_web_opencv_js:
  "opencvTest_web opencv_js =
     Inr (McvSuccess (JObj
       [(''opencv_version'', JStr ''4.10.0''),
        (''gray_values'', JArr [num 76, num 150, num 29]),
        (''shape'', JArr [num 1, num 3]),
        (''mean_gray'', num 85)]))"
proof -
  have "opencvTest_web opencv_js =
      Inr (opencvTest_response opencv_js \<lparr>rows = 1, cols = 3, channels = 1, data = [76, 150, 29]\<rparr>)"
    using rgb2gray_rgb matFromArray_opencv_js
    by (simp add: opencvTest_web_def) (simp add: opencv_js_def)
  then show ?thesis using opencvTest_response_85 [of opencv_js] by simp
qed

lemma handler_opencv_python:
  "handle_mcv_cv_opencv_test opencv_python a =
     Inr (JObj
       [(''opencv_version'', JStr ''4.10.0''),
        (''gray_values'', JArr [num 76, num 150, num 29]),
        (''shape'', JArr [num 1, num 3]),
        (''mean_gray'', num 85)])"
  using rgb2gray_rgb
  by (simp add: handle_mcv_cv_opencv_test_def opencv_python_def np_mean_def num_def double_85')

lemma web_page_opencvTest:
  "fst (callMcvApi web_page initial_state (opencvTest_request a)) =
     McvSuccess (JObj
       [(''opencv_version'', JStr ''4.10.0''),
        (''gray_values'', JArr [num 76, num 150, num 29]),
        (''shape'', JArr [num 1, num 3]),
        (''mean_gray'', num 85)])"
  by (simp add: callMcvApi_opencvTest reachable_initial load_runtime_web_page
      opencvTest_web_opencv_js)

lemma python_page_opencvTest:
  "fst (callMcvApi python_page initial_state (opencvTest_request a)) =
     McvSuccess (JObj
       [(''opencv_version'', JStr ''4.10.0''),
        (''gray_values'', JArr [num 76, num 150, num 29]),
        (''shape'', JArr [num 1, num 3]),
        (''mean_gray'', num 85)])"
  by (simp add: callMcvApi_opencvTest reachable_initial callMcvApi_remote_opencvTest
      handler_opencv_python num_def)

section \<open>The specified solver operations\<close>

text \<open>
  Claim C1, as the code has it: \<^verbatim>\<open>solvePose\<close> is not an operation of the envelope. Every
  request with op \<^verbatim>\<open>solvePose\<close> whose args are an array of at least 6 correspondences is
  answered by a failure and never by a success: the web backend answers with code
  \<^verbatim>\<open>UNKNOWN_OP\<close>; the Python server answers with status 400 and code \<^verbatim>\<open>UNKNOWN_OP\<close>,
  which \<^verbatim>\<open>callMcvApi\<close> on the python backend reports as \<^verbatim>\<open>HTTP_ERROR\<close>
  (\<^verbatim>\<open>NETWORK_ERROR\<close> when the server cannot be reached).
\<close>

theorem solvePose_unsupported:
  "6 \<le> length cs \<Longrightarrow>
   \<not> is_success (fst (callMcvApi env s (solvePose_request cs)))
   \<and> error_code (fst (callMcvApi env s (solvePose_request cs))) =
       Some (if MCV_BACKEND env = Web then ''UNKNOWN_OP''
             else if fetch_rejects env = None then ''HTTP_ERROR'' else ''NETWORK_ERROR'')
   \<and> flask_post_api_mcv env (Some (request_json (solvePose_request cs))) =
       \<lparr>status = 400,
        body = Json (McvFailure ''UNKNOWN_OP'' ''Unsupported operation: solvePose'' None)\<rparr>"
  by (simp add: callMcvApi_unknown_op flask_post_api_mcv_def api_mcv_unknown_op jsonify_def)

theorem solvePose_unsupported_witness:
  "6 \<le> length flat_points
   \<and> \<not> is_success (fst (callMcvApi python_page initial_state (solvePose_request flat_points)))
   \<and> error_code (fst (callMcvApi python_page initial_state (solvePose_request flat_points))) =
       Some ''HTTP_ERROR''
   \<and> flask_post_api_mcv python_page (Some (request_json (solvePose_request flat_points))) =
       \<lparr>status = 400,
        body = Json (McvFailure ''UNKNOWN_OP'' ''Unsupported operation: solvePose'' None)\<rparr>"
proof -
  have h: "6 \<le> length flat_points" by simp
  show ?thesis using solvePose_unsupported [OF h, of python_page initial_state] by simp
qed

text \<open>The claim as the specification states it fails on six correspondences: the answer of
  the web backend is no success, and its code is none of \<^verbatim>\<open>INSUFFICIENT_POINTS\<close>,
  \<^verbatim>\<open>DEGENERATE_CONFIGURATION\<close>, \<^verbatim>\<open>NON_CONVERGENCE\<close>.\<close>

theorem solvePose_counterexample:
  "6 \<le> length flat_points
   \<and> \<not> (is_success (fst (callMcvApi web_page initial_state (solvePose_request flat_points)))
        \<or> error_code (fst (callMcvApi web_page initial_state (solvePose_request flat_points)))
            \<in> {Some ''INSUFFICIENT_POINTS'', Some ''DEGENERATE_CONFIGURATION'',
                Some ''NON_CONVERGENCE''})"
  by (simp add: callMcvApi_unknown_op)

text \<open>
  Claim C2, as the code has it: \<^verbatim>\<open>solveTickBoundary\<close> is not an operation of the envelope.
  Every request with op \<^verbatim>\<open>solveTickBoundary\<close> carrying two sample lists, of any lengths, is
  answered by a failure and never by a success: code \<^verbatim>\<open>UNKNOWN_OP\<close> from the web backend
  and from the Python server (status 400), reported as \<^verbatim>\<open>HTTP_ERROR\<close> by \<^verbatim>\<open>callMcvApi\<close> on
  the python backend (\<^verbatim>\<open>NETWORK_ERROR\<close> when the server cannot be reached).
\<close>

theorem solveTickBoundary_unsupported:
  "\<not> is_success (fst (callMcvApi env s (solveTickBoundary_request before after)))
   \<and> error_code (fst (callMcvApi env s (solveTickBoundary_request before after))) =
       Some (if MCV_BACKEND env = Web then ''UNKNOWN_OP''
             else if fetch_rejects env = None then ''HTTP_ERROR'' else ''NETWORK_ERROR'')
   \<and> flask_post_api_mcv env (Some (request_json (solveTickBoundary_request before after))) =
       \<lparr>status = 400,
        body = Json (McvFailure ''UNKNOWN_OP''
                       ''Unsupported operation: solveTickBoundary'' None)\<rparr>"
  by (simp add: callMcvApi_unknown_op flask_post_api_mcv_def api_mcv_unknown_op jsonify_def)

theorem solveTickBoundary_unsupported_witness:
  "\<not> is_success (fst (callMcvApi web_page initial_state (solveTickBoundary_request [] [])))
   \<and> error_code (fst (callMcvApi web_page initial_state (solveTickBoundary_request [] []))) =
       Some ''UNKNOWN_OP''
   \<and> error_code (fst (callMcvApi python_page initial_state
                        (solveTickBoundary_request segment_before segment_after))) =
       Some ''HTTP_ERROR''"
  using solveTickBoundary_unsupported [of web_page initial_state "[]" "[]"]
    solveTickBoundary_unsupported [of python_page initial_state segment_before segment_after]
  by simp

text \<open>The claim as the specification states it fails on two segments of two samples each:
  the answer is no success, and its code is neither \<^verbatim>\<open>INSUFFICIENT_SAMPLES\<close> nor
  \<^verbatim>\<open>PARALLEL_LINES\<close>.\<close>

theorem solveTickBoundary_counterexample:
  "\<not> (is_success (fst (callMcvApi web_page initial_state
                         (solveTickBoundary_request segment_before segment_after)))
      \<or> error_code (fst (callMcvApi web_page initial_state
                           (solveTickBoundary_request segment_before segment_after)))
          \<in> {Some ''INSUFFICIENT_SAMPLES'', Some ''PARALLEL_LINES''})"
  by (simp add: callMcvApi_unknown_op)

text \<open>
  Claim C4, as the code has it: for every correspondence set with fewer than 6 pairs, a
  \<^verbatim>\<open>solvePose\<close> call on that set never returns a pose. It is refused as an unknown
  operation (\<^verbatim>\<open>UNKNOWN_OP\<close> on the web backend, \<^verbatim>\<open>HTTP_ERROR\<close> or \<^verbatim>\<open>NETWORK_ERROR\<close> on
  the python backend) before anything else runs: the module state is left as it was, so no
  OpenCV runtime has been loaded. The code counts no points.
\<close>

theorem too_few_points_no_pose:
  "length cs < 6 \<Longrightarrow>
   \<not> is_success (fst (callMcvApi env s (solvePose_request cs)))
   \<and> error_code (fst (callMcvApi env s (solvePose_request cs))) =
       Some (if MCV_BACKEND env = Web then ''UNKNOWN_OP''
             else if fetch_rejects env = None then ''HTTP_ERROR'' else ''NETWORK_ERROR'')
   \<and> snd (callMcvApi env s (solvePose_request cs)) = s"
  by (simp add: callMcvApi_unknown_op)

theorem too_few_points_no_pose_witness:
  "length (take 5 flat_points) < 6
   \<and> \<not> is_success (fst (callMcvApi web_page initial_state
                           (solvePose_request (take 5 flat_points))))
   \<and> error_code (fst (callMcvApi web_page initial_state
                        (solvePose_request (take 5 flat_points)))) = Some ''UNKNOWN_OP''
   \<and> snd (callMcvApi web_page initial_state (solvePose_request (take 5 flat_points))) =
       initial_state"
proof -
  have h: "length (take 5 flat_points) < 6" by simp
  show ?thesis using too_few_points_no_pose [OF h, of web_page initial_state] by simp
qed

text \<open>The claim as the specification states it fails on five correspondences: the code of
  the answer is not \<^verbatim>\<open>INSUFFICIENT_POINTS\<close>.\<close>

theorem too_few_points_counterexample:
  "length (take 5 flat_points) < 6
   \<and> error_code (fst (callMcvApi web_page initial_state
                        (solvePose_request (take 5 flat_points))))
       \<noteq> Some ''INSUFFICIENT_POINTS''"
  by (simp add: callMcvApi_unknown_op)

text \<open>
  Claim C5, as the code has it: for every correspondence set whose world points are all
  coplanar and whose pixels are collinear, \<^verbatim>\<open>solvePose\<close> deterministically returns a
  failure and never a pose estimate. The failure is that of an unknown operation
  (\<^verbatim>\<open>UNKNOWN_OP\<close> on the web backend, \<^verbatim>\<open>HTTP_ERROR\<close> or \<^verbatim>\<open>NETWORK_ERROR\<close> on the python
  backend), and it is the same whatever the module state. The code inspects no geometry.
\<close>

theorem degenerate_no_pose:
  "coplanar (map world cs) \<Longrightarrow> collinear (map pixel cs) \<Longrightarrow>
   \<not> is_success (fst (callMcvApi env s (solvePose_request cs)))
   \<and> error_code (fst (callMcvApi env s (solvePose_request cs))) =
       Some (if MCV_BACKEND env = Web then ''UNKNOWN_OP''
             else if fetch_rejects env = None then ''HTTP_ERROR'' else ''NETWORK_ERROR'')
   \<and> fst (callMcvApi env s' (solvePose_request cs)) =
       fst (callMcvApi env s (solvePose_request cs))"
  by (simp add: callMcvApi_unknown_op)

theorem degenerate_no_pose_witness:
  "coplanar (map world flat_points) \<and> collinear (map pixel flat_points)
   \<and> \<not> is_success (fst (callMcvApi web_page initial_state (solvePose_request flat_points)))
   \<and> error_code (fst (callMcvApi web_page initial_state (solvePose_request flat_points))) =
       Some ''UNKNOWN_OP''"
proof -
  have c: "coplanar (map world flat_points)" using flat_points_degenerate by simp
  have l: "collinear (map pixel flat_points)" using flat_points_degenerate by simp
  show ?thesis using degenerate_no_pose [OF c l, of web_page initial_state] c l by simp
qed

text \<open>The claim as the specification states it fails on six points of the plane \<open>z = 0\<close>
  whose pixels lie on one line: the code of the answer is not
  \<^verbatim>\<open>DEGENERATE_CONFIGURATION\<close>.\<close>

theorem degenerate_counterexample:
  "coplanar (map world flat_points) \<and> collinear (map pixel flat_points)
   \<and> error_code (fst (callMcvApi web_page initial_state (solvePose_request flat_points)))
       \<noteq> Some ''DEGENERATE_CONFIGURATION''"
  using flat_points_degenerate by (simp add: callMcvApi_unknown_op)

section \<open>The envelope\<close>




text \<open>
  Claim C9: for every request whose op is not \<^verbatim>\<open>cv.opencvTest\<close>, the web backend returns
  the failure with code \<^verbatim>\<open>UNKNOWN_OP\<close> and leaves the module state as it was, whatever the
  environment holds, so the OpenCV runtime is not invoked; the Python server answers with
  status 400 and a failure with code \<^verbatim>\<open>UNKNOWN_OP\<close>; and on neither backend does
  \<^verbatim>\<open>callMcvApi\<close> return a success.
\<close>

theorem unknown_op_rejected:
  "op r \<noteq> ''cv.opencvTest'' \<Longrightarrow>
   callMcvApi_web env s r =
     (McvFailure ''UNKNOWN_OP'' (''Unsupported operation in web backend: '' @ op r) None, s)
   \<and> flask_post_api_mcv env (Some (request_json r)) =
       \<lparr>status = 400,
        body = Json (McvFailure ''UNKNOWN_OP'' (''Unsupported operation: '' @ op r) None)\<rparr>
   \<and> \<not> is_success (fst (callMcvApi env s r))"
  by (simp add: callMcvApi_web_unknown_op flask_post_api_mcv_def api_mcv_unknown_op
      jsonify_def callMcvApi_unknown_op)

theorem unknown_op_rejected_witness:
  "op \<lparr>op = ''cv.opencvtest'', args = JObj []\<rparr> \<noteq> ''cv.opencvTest''
   \<and> callMcvApi_web web_page initial_state \<lparr>op = ''cv.opencvtest'', args = JObj []\<rparr> =
       (McvFailure ''UNKNOWN_OP'' ''Unsupported operation in web backend: cv.opencvtest'' None,
        initial_state)
   \<and> flask_post_api_mcv web_page (Some (request_json \<lparr>op = ''cv.opencvtest'', args = JObj []\<rparr>)) =
       \<lparr>status = 400,
        body = Json (McvFailure ''UNKNOWN_OP'' ''Unsupported operation: cv.opencvtest'' None)\<rparr>
   \<and> \<not> is_success (fst (callMcvApi web_page initial_state
                           \<lparr>op = ''cv.opencvtest'', args = JObj []\<rparr>))"
proof -
  have h: "op \<lparr>op = ''cv.opencvtest'', args = JObj []\<rparr> \<noteq> ''cv.opencvTest''" by simp
  show ?thesis using unknown_op_rejected [OF h, of web_page initial_state] by simp
qed

section \<open>The operation \<^verbatim>\<open>cv.opencvTest\<close>\<close>

lemma inj_byte_json: "inj (\<lambda>v :: 8 word. num (of_nat (unat v)))"
proof (rule injI)
  fix x y :: "8 word"
  assume "num (of_nat (unat x)) = num (of_nat (unat y))"
  then have "(of_nat (unat x) :: rat) = of_nat (unat y)"
    by (simp only: num_def json.inject number.inject)
  then have "unat x = unat y" by (simp only: of_nat_eq_iff)
  then show "x = y" by (simp only: word_unat_eq_iff)
qed

lemma bytes_json_eq:
  "JArr (map (\<lambda>v :: 8 word. num (of_nat (unat v))) xs) =
     JArr (map (\<lambda>v. num (of_nat (unat v))) ys) \<longleftrightarrow> xs = ys"
  using inj_map_eq_map [OF inj_byte_json] by simp

lemma callMcvApi_web_runtime:
  assumes "fst (callMcvApi_web env s r) = McvSuccess d"
  shows "\<exists>cv. (cvPromise s = Some (Inr cv) \<or> cvPromise s = None \<and> load_runtime env = Inr cv)
           \<and> opencvTest_web cv = Inr (McvSuccess d)"
  using assms
  by (auto simp add: callMcvApi_web_def getWebMcvRuntime_def Let_def
      split: if_splits option.splits sum.splits)







text \<open>
  Claim C8, as the code has it: the module holds one module-level mutable variable that
  the backend call path reads and writes, \<^verbatim>\<open>cvPromise\<close>, the cache of the OpenCV.js
  runtime. A call changes the module state only on the web backend, for a
  \<^verbatim>\<open>cv.opencvTest\<close> request, while \<^verbatim>\<open>cvPromise\<close> is still \<^verbatim>\<open>null\<close>: it then stores the
  promise of the runtime, and no later call changes it. The call path writes no other
  module-level variable, and its response depends on the module state through
  \<^verbatim>\<open>cvPromise\<close> only.
\<close>

theorem cvPromise_is_only_state:
  "snd (callMcvApi env s r) =
     (if MCV_BACKEND env = Web \<and> op r = ''cv.opencvTest'' \<and> cvPromise s = None
      then s\<lparr>cvPromise := Some (load_runtime env)\<rparr> else s)
   \<and> (cvPromise s = cvPromise s' \<longrightarrow> fst (callMcvApi env s r) = fst (callMcvApi env s' r))"
  using callMcvApi_state [of env s r] callMcvApi_reads_cvPromise_only [of s s' env r]
  by blast

theorem cvPromise_is_only_state_witness:
  "snd (callMcvApi web_page initial_state (opencvTest_request JNull)) =
     initial_state\<lparr>cvPromise := Some (Inr opencv_js)\<rparr>
   \<and> snd (callMcvApi web_page (initial_state\<lparr>cvPromise := Some (Inr opencv_js)\<rparr>)
            (opencvTest_request JNull)) =
     initial_state\<lparr>cvPromise := Some (Inr opencv_js)\<rparr>
   \<and> fst (callMcvApi web_page initial_state (opencvTest_request JNull)) =
     fst (callMcvApi web_page (initial_state\<lparr>mediaSearchQuery := ''dream''\<rparr>)
            (opencvTest_request JNull))"
  using cvPromise_is_only_state [of web_page initial_state "opencvTest_request JNull"
          "initial_state\<lparr>mediaSearchQuery := ''dream''\<rparr>"]
        cvPromise_is_only_state [of web_page "initial_state\<lparr>cvPromise := Some (Inr opencv_js)\<rparr>"
          "opencvTest_request JNull" initial_state]
  by (simp add: load_runtime_web_page initial_state_def)

text \<open>The claim as the specification states it fails on the first \<^verbatim>\<open>cv.opencvTest\<close> call of
  a page: the call writes \<^verbatim>\<open>cvPromise\<close>, and the response of a call depends on what
  \<^verbatim>\<open>cvPromise\<close> holds.\<close>

theorem cvPromise_counterexample:
  "cvPromise (snd (callMcvApi web_page initial_state (opencvTest_request JNull)))
     \<noteq> cvPromise initial_state
   \<and> fst (callMcvApi web_page (initial_state\<lparr>cvPromise := Some (Inl ''Error: no script'')\<rparr>)
            (opencvTest_request JNull))
     \<noteq> fst (callMcvApi web_page initial_state (opencvTest_request JNull))"
  by (simp add: callMcvApi_state initial_state_def callMcvApi_def
      callMcvApi_web_def getWebMcvRuntime_def load_runtime_web_page
      opencvTest_web_opencv_js Let_def)

text \<open>
  Claim C10, as the code has it: in every success response of \<^verbatim>\<open>cv.opencvTest\<close>,
  \<^verbatim>\<open>mean_gray\<close> is the arithmetic mean of the \<^verbatim>\<open>gray_values\<close> list as double-precision
  division computes it: the sum of the values, which is exact for a list of fewer than
  \<open>2 ^ 45\<close> bytes, divided by their number and rounded to the nearest double. It is the
  arithmetic mean itself where that is a double, as the mean 85 of 76, 150 and 29 is. On the
  web backend it is 0 when the list is empty; on the Python backend no success response has
  an empty list, since the NaN that \<^verbatim>\<open>numpy.mean\<close> yields for it makes \<^verbatim>\<open>response.json()\<close>
  reject the body.
\<close>

theorem mean_gray_is_double_mean:
  "fst (callMcvApi env s r) = McvSuccess d \<Longrightarrow>
   \<exists>gv :: 8 word list.
      field ''gray_values'' d = Some (JArr (map (\<lambda>v. num (of_nat (unat v))) gv))
    \<and> (MCV_BACKEND env = Python \<longrightarrow> gv \<noteq> [])
    \<and> (length gv < 2 ^ 45 \<longrightarrow>
         field ''mean_gray'' d =
           Some (num (if gv = [] then 0
                      else double (of_nat (sum_list (map unat gv)) / of_nat (length gv)))))"
proof (cases "MCV_BACKEND env = Web")
  case True
  assume "fst (callMcvApi env s r) = McvSuccess d"
  with True have "fst (callMcvApi_web env s r) = McvSuccess d" by (simp add: callMcvApi_def)
  from callMcvApi_web_runtime [OF this] obtain cv
    where "opencvTest_web cv = Inr (McvSuccess d)" by blast
  from opencvTest_web_Inr [OF this] obtain gray
    where "McvSuccess d = opencvTest_response cv gray" by blast
  then have "opencvTest_response cv gray = McvSuccess d" by simp
  note w = opencvTest_response_fields [OF this]
  show ?thesis
    by (rule exI [of _ "data gray"]) (use True w in simp)
next
  case False
  assume "fst (callMcvApi env s r) = McvSuccess d"
  with False have "callMcvApi_remote env r = McvSuccess d" by (simp add: callMcvApi_def)
  from callMcvApi_remote_success [OF this]
  have "handle_mcv_cv_opencv_test (cv2 env) (JObj []) = Inr d" and "\<not> has_NaN d"
    by simp_all
  from handler_fields [OF this] obtain gray :: Mat
    where "data gray \<noteq> []"
      and "field ''gray_values'' d =
             Some (JArr (map (\<lambda>v. num (of_nat (unat v))) (data gray)))"
      and "field ''mean_gray'' d =
             Some (num (double (of_nat (sum_list (map unat (data gray)))
                                  / of_nat (length (data gray)))))"
    by blast
  then show ?thesis
    by (intro exI [of _ "data gray"]) simp
qed

theorem mean_gray_is_double_mean_witness:
  "fst (callMcvApi python_page initial_state (opencvTest_request JNull)) =
     McvSuccess (JObj
       [(''opencv_version'', JStr ''4.10.0''),
        (''gray_values'', JArr [num 76, num 150, num 29]),
        (''shape'', JArr [num 1, num 3]),
        (''mean_gray'', num 85)])
   \<and> (\<exists>gv :: 8 word list. gv \<noteq> [] \<and> length gv < 2 ^ 45
          \<and> JArr [num 76, num 150, num 29] = JArr (map (\<lambda>v. num (of_nat (unat v))) gv)
          \<and> num 85 = num (double (of_nat (sum_list (map unat gv)) / of_nat (length gv))))"
proof -
  let ?d = "JObj
       [(''opencv_version'', JStr ''4.10.0''),
        (''gray_values'', JArr [num 76, num 150, num 29]),
        (''shape'', JArr [num 1, num 3]),
        (''mean_gray'', num 85)]"
  have s: "fst (callMcvApi python_page initial_state (opencvTest_request JNull)) = McvSuccess ?d"
    by (rule python_page_opencvTest)
  from mean_gray_is_double_mean [OF s]
  obtain gv :: "8 word list"
    where g: "field ''gray_values'' ?d = Some (JArr (map (\<lambda>v. num (of_nat (unat v))) gv))"
      and ne: "MCV_BACKEND python_page = Python \<longrightarrow> gv \<noteq> []"
      and m: "length gv < 2 ^ 45 \<longrightarrow>
         field ''mean_gray'' ?d =
           Some (num (if gv = [] then 0
                      else double (of_nat (sum_list (map unat gv)) / of_nat (length gv))))"
    by blast
  from g have g': "JArr [num 76, num 150, num 29] = JArr (map (\<lambda>v. num (of_nat (unat v))) gv)"
    by (simp del: Cons_eq_map_conv)
  from ne have ne': "gv \<noteq> []" by simp
  from g' have "length gv = 3"
    by (simp only: json.inject) (drule arg_cong [of _ _ length], simp)
  then have l: "length gv < 2 ^ 45" by simp
  with m ne' have eq: "num 85 = num (double (of_nat (sum_list (map unat gv)) / of_nat (length gv)))"
    by simp
  have "\<exists>gv :: 8 word list. gv \<noteq> [] \<and> length gv < 2 ^ 45
          \<and> JArr [num 76, num 150, num 29] = JArr (map (\<lambda>v. num (of_nat (unat v))) gv)
          \<and> num 85 = num (double (of_nat (sum_list (map unat gv)) / of_nat (length gv)))"
    by (rule exI [of _ gv]) (intro conjI; fact)
  with s show ?thesis by (rule conjI)
qed

text \<open>The claim as the specification states it fails where the conversion returns the
  bytes 1, 0, 0: their arithmetic mean is a third, which is no double, and \<^verbatim>\<open>mean_gray\<close> is
  the double next to it.\<close>

theorem mean_gray_counterexample:
  "fst (callMcvApi dim_page initial_state (opencvTest_request JNull)) =
     McvSuccess (JObj
       [(''opencv_version'', JStr ''4.10.0''),
        (''gray_values'', JArr [num 1, num 0, num 0]),
        (''shape'', JArr [num 1, num 3]),
        (''mean_gray'', num (6004799503160661 / 18014398509481984))])
   \<and> num (6004799503160661 / 18014398509481984) \<noteq> num ((1 + 0 + 0) / 3)"
proof -
  have l: "load_runtime dim_page = Inr dim_opencv_js"
    by (simp add: load_runtime_def dim_page_def web_page_def)
  have b: "MCV_BACKEND dim_page = Web" by (simp add: dim_page_def)
  have "opencvTest_web dim_opencv_js =
      Inr (opencvTest_response dim_opencv_js
             \<lparr>rows = 1, cols = 3, channels = 1, data = [1, 0, 0]\<rparr>)"
    using matFromArray_opencv_js
    by (simp add: opencvTest_web_def dim_opencv_js_def) (simp add: opencv_js_def)
  moreover have "opencvTest_response dim_opencv_js
             \<lparr>rows = 1, cols = 3, channels = 1, data = [1, 0, 0]\<rparr> =
     McvSuccess (JObj
       [(''opencv_version'', JStr ''4.10.0''),
        (''gray_values'', JArr [num 1, num 0, num 0]),
        (''shape'', JArr [num 1, num 3]),
        (''mean_gray'', num (6004799503160661 / 18014398509481984))])"
    using sum_bytes_exact [of "[1, 0, 0]"] double_third
    by (simp add: opencvTest_response_def Let_def num_def Number_def dim_opencv_js_def)
  ultimately have "fst (callMcvApi dim_page initial_state (opencvTest_request JNull)) =
     McvSuccess (JObj
       [(''opencv_version'', JStr ''4.10.0''),
        (''gray_values'', JArr [num 1, num 0, num 0]),
        (''shape'', JArr [num 1, num 3]),
        (''mean_gray'', num (6004799503160661 / 18014398509481984))])"
    by (simp add: callMcvApi_opencvTest reachable_initial l b)
  then show ?thesis by (simp add: num_def)
qed

end
